theory Spec2Isabelle
  imports Complex_Main
begin

section \<open>Turbine selection chart: data model\<close>

text \<open>
  The repository holds two programs with the same decision logic: the desktop form
  \<^verbatim>\<open>TurbineChartGUI.py\<close> (definitions with the suffix \<open>_gui\<close>) and the console script
  \<^verbatim>\<open>Turbine Selection Chart.py\<close> (suffix \<open>_script\<close>). Both are embedded, function by
  function.

  Python's \<^verbatim>\<open>float\<close> is idealised as \<^typ>\<open>real\<close>: every decimal literal of the source
  stands for the exact decimal, and the arithmetic is exact. Rounding, overflow to
  infinity and NaN are outside the model.
\<close>

type_synonym point = "real \<times> real"

text \<open>A dictionary literal is an association list in insertion order, which is the
  order \<^verbatim>\<open>items()\<close> iterates in.\<close>

type_synonym ('k, 'v) dict = "('k \<times> 'v) list"

text \<open>The values the optional turbine argument takes: \<^verbatim>\<open>None\<close> or a string.\<close>

datatype pyobj = PyNone | PyStr string

datatype py_error = ValueError | IndexError | KeyError | EOFError

text \<open>\<^verbatim>\<open>d.get(k, default)\<close>\<close>

definition dict_get :: "('k, 'v) dict \<Rightarrow> 'k \<Rightarrow> 'v \<Rightarrow> 'v" where
  "dict_get d k dflt = (case map_of d k of None \<Rightarrow> dflt | Some v \<Rightarrow> v)"

text \<open>\<^verbatim>\<open>d[k]\<close>, which raises \<^verbatim>\<open>KeyError\<close> on a missing key.\<close>

definition dict_item :: "('k, 'v) dict \<Rightarrow> 'k \<Rightarrow> py_error + 'v" where
  "dict_item d k = (case map_of d k of None \<Rightarrow> Inl KeyError | Some v \<Rightarrow> Inr v)"

section \<open>The power estimator\<close>

text \<open>
  \<^verbatim>\<open>
  def calculate_power(Q, H, turbine=None):
      rho = 998
      g = 9.81
      eff = {'Pelton': 0.915, 'Francis': 0.945, 'Kaplan': 0.94}.get(turbine, 0.88)
      return (rho * g * Q * H * eff) / 1000
  \<close>
\<close>

definition calculate_power_gui :: "real \<Rightarrow> real \<Rightarrow> pyobj \<Rightarrow> real" where
  "calculate_power_gui Q H turbine =
     (let rho = 998;
          g = 9.81;
          eff = dict_get [(PyStr ''Pelton'', 0.915), (PyStr ''Francis'', 0.945),
                          (PyStr ''Kaplan'', 0.94)] turbine 0.88
      in (rho * g * Q * H * eff) / 1000)"

text \<open>The script names the table and the result before returning it.\<close>

definition efficiencies_script :: "(pyobj, real) dict" where
  "efficiencies_script =
     [(PyStr ''Pelton'', 0.915), (PyStr ''Francis'', 0.945), (PyStr ''Kaplan'', 0.94)]"

definition calculate_power_script :: "real \<Rightarrow> real \<Rightarrow> pyobj \<Rightarrow> real" where
  "calculate_power_script Q H turbine_type =
     (let rho = 998;
          g = 9.81;
          efficiency = dict_get efficiencies_script turbine_type 0.88;
          P = (rho * g * Q * H * efficiency) / 1000
      in P)"

section \<open>The envelopes\<close>

text \<open>
  \<^verbatim>\<open>define_envelopes()\<close> returns a dict from turbine name to the vertex list of its
  operating envelope in the \<open>(Q, H)\<close> plane. The two files hold the same literal.
\<close>

definition define_envelopes_gui :: "(string, point list) dict" where
  "define_envelopes_gui =
     [(''Pelton'',
         [(0.02, 120), (0.02, 1000), (3.5, 1000), (9.8, 350),
          (4.8, 60), (0.038, 60)]),
      (''Francis'',
         [(0.2, 12), (0.2, 36), (1.2, 350),
          (9.8, 350), (40, 85), (25, 20), (1.6, 7), (0.32, 7)]),
      (''Kaplan'',
         [(1.2, 2), (0.5, 4.5), (0.5, 7), (1.8, 30),
          (5.9, 48), (35.0, 48), (100.0, 18), (100.0, 2.9), (75.0, 2)])]"

definition define_envelopes_script :: "(string, point list) dict" where
  "define_envelopes_script =
     [(''Pelton'',
         [(0.02, 120), (0.02, 1000), (3.5, 1000), (9.8, 350),
          (4.8, 60), (0.038, 60)]),
      (''Francis'',
         [(0.2, 12), (0.2, 36), (1.2, 350),
          (9.8, 350), (40, 85), (25, 20), (1.6, 7), (0.32, 7)]),
      (''Kaplan'',
         [(1.2, 2), (0.5, 4.5), (0.5, 7), (1.8, 30),
          (5.9, 48), (35.0, 48), (100.0, 18), (100.0, 2.9), (75.0, 2)])]"

text \<open>The fill colours of \<^verbatim>\<open>plot_envelopes\<close>; \<^verbatim>\<open>colors[name]\<close> raises on a name that
  has none.\<close>

definition colors :: "(string, string) dict" where
  "colors = [(''Pelton'', ''#2ca02c''), (''Francis'', ''#1f77b4''), (''Kaplan'', ''#ff7f0e'')]"

text \<open>\<^verbatim>\<open>d[k] = v\<close>: an existing key keeps its place, a new key goes to the end.\<close>

fun dict_set :: "('k, 'v) dict \<Rightarrow> 'k \<Rightarrow> 'v \<Rightarrow> ('k, 'v) dict" where
  "dict_set [] k v = [(k, v)]"
| "dict_set ((k', v') # d) k v = (if k' = k then (k, v) # d else (k', v') # dict_set d k v)"

text \<open>A \<^verbatim>\<open>matplotlib.path.Path\<close> built from vertices alone is its vertex sequence.\<close>

type_synonym path = "point list"

text \<open>
  \<^verbatim>\<open>
  def plot_envelopes(ax, envelopes):
      paths = {}
      for name, pts in envelopes.items():
          poly = pts + [pts[0]]
          path = Path(poly)
          patch = patches.PathPatch(path, facecolor=colors[name], alpha=0.25, label=name)
          ...
          paths[name] = path
      return paths
  \<close>
  \<^verbatim>\<open>pts[0]\<close> raises \<^verbatim>\<open>IndexError\<close> on an empty vertex list and \<^verbatim>\<open>colors[name]\<close> raises
  \<^verbatim>\<open>KeyError\<close> on an unknown name. The drawing itself is not modelled. The function is
  the same in both files.
\<close>

fun plot_envelopes_loop ::
  "(string, point list) dict \<Rightarrow> (string, path) dict \<Rightarrow> py_error + (string, path) dict" where
  "plot_envelopes_loop [] paths = Inr paths"
| "plot_envelopes_loop ((name, pts) # rest) paths =
     (case pts of
        [] \<Rightarrow> Inl IndexError
      | p0 # _ \<Rightarrow>
          (let poly = pts @ [p0] in
           case dict_item colors name of
             Inl e \<Rightarrow> Inl e
           | Inr c \<Rightarrow> plot_envelopes_loop rest (dict_set paths name poly)))"

definition plot_envelopes :: "(string, point list) dict \<Rightarrow> py_error + (string, path) dict" where
  "plot_envelopes envelopes = plot_envelopes_loop envelopes []"

section \<open>Point-in-polygon containment\<close>

text \<open>
  Modelled from the spec: \<^verbatim>\<open>Path.contains_point\<close> belongs to matplotlib and is not
  among the sources of the repository. The spec calls it standard point-in-polygon
  containment of the implicitly closed polygon and leaves the boundary to the
  implementation. The model is the even-odd crossing test that matplotlib runs for a
  path of straight segments, no transform and \<^verbatim>\<open>radius=0.0\<close>: a ray from the point along
  \<open>+Q\<close> is intersected with every edge, the closing edge from the last vertex back to
  the first included, and the point is inside when the number of edges hit is odd. For
  the edge from \<open>(vtx0, vty0)\<close> to \<open>(vtx1, vty1)\<close> and the point \<open>(tx, ty)\<close> the test is
  \<^verbatim>\<open>
  yflag0 = (vty0 >= ty);  yflag1 = (vty1 >= ty);
  if (yflag0 != yflag1)
      if (((vty1 - ty) * (vtx0 - vtx1) >= (vtx1 - tx) * (vty0 - vty1)) == yflag1)
          subpath_flag ^= 1;
  \<close>
  so an edge is hit when its end points lie on opposite sides of the ray and the
  intersection is not left of the point. A path of fewer than three vertices contains
  nothing. What the test answers on the boundary follows from the two \<open>\<ge>\<close>; off the
  boundary it is the geometric containment, as proved below for the three envelopes.
\<close>

definition crosses :: "point \<Rightarrow> point \<Rightarrow> point \<Rightarrow> bool" where
  "crosses p v0 v1 =
     (case p of (tx, ty) \<Rightarrow> case v0 of (vtx0, vty0) \<Rightarrow> case v1 of (vtx1, vty1) \<Rightarrow>
        (let yflag0 = (vty0 \<ge> ty);
             yflag1 = (vty1 \<ge> ty)
         in yflag0 \<noteq> yflag1 \<and>
            (((vty1 - ty) * (vtx0 - vtx1) \<ge> (vtx1 - tx) * (vty0 - vty1)) = yflag1)))"

fun subpath_flag :: "point \<Rightarrow> point \<Rightarrow> point \<Rightarrow> point list \<Rightarrow> bool \<Rightarrow> bool" where
  "subpath_flag p s v0 [] flag = (flag \<noteq> crosses p v0 s)"
| "subpath_flag p s v0 (v1 # vs) flag = subpath_flag p s v1 vs (flag \<noteq> crosses p v0 v1)"

definition contains_point :: "path \<Rightarrow> point \<Rightarrow> bool" where
  "contains_point path p =
     (case path of
        [] \<Rightarrow> False
      | s # vs \<Rightarrow> if length path < 3 then False else subpath_flag p s s vs False)"

section \<open>Classification and the displayed result\<close>

text \<open>What the chart shows about the point: the title, and the annotation with the
  power per matching turbine or the approximate power. The numbers are kept as
  numbers; their formatting to two decimals is not modelled.\<close>

datatype annotation = Powers "(string, real) dict" | ApproxPower real

record outcome =
  title :: string
  annotation :: annotation

text \<open>\<^verbatim>\<open>sep.join(xs)\<close>\<close>

fun join :: "string \<Rightarrow> string list \<Rightarrow> string" where
  "join sep [] = []"
| "join sep [x] = x"
| "join sep (x # y # ys) = x @ sep @ join sep (y # ys)"

text \<open>\<^verbatim>\<open>[t for t, p in paths.items() if p.contains_point((Q, H))]\<close>, in both files.\<close>

definition suitable :: "(string, path) dict \<Rightarrow> real \<Rightarrow> real \<Rightarrow> string list" where
  "suitable paths Q H = map fst (filter (\<lambda>(t, p). contains_point p (Q, H)) paths)"

text \<open>
  The decision in \<^verbatim>\<open>create_plot(Q, H)\<close> of the form. The figure, the axes, the power
  curves of \<^verbatim>\<open>plot_power_curves\<close> and the marker of the point are drawing and are not
  modelled; the title and the annotation are the result.
  \<^verbatim>\<open>
  envelopes = define_envelopes()
  paths = plot_envelopes(ax, envelopes)
  suitable = [t for t, p in paths.items() if p.contains_point((Q, H))]
  if suitable:
      pows = {t: calculate_power(Q, H, t) for t in suitable}
      ... annotate with pows ...
      ax.set_title("Turbine(s): " + ", ".join(suitable), pad=15)
  else:
      pow0 = calculate_power(Q, H)
      ... annotate with pow0 ...
      ax.set_title("Turbine(s): None", pad=15)
  \<close>
\<close>

definition create_plot_gui :: "real \<Rightarrow> real \<Rightarrow> py_error + outcome" where
  "create_plot_gui Q H =
     (let envelopes = define_envelopes_gui in
      case plot_envelopes envelopes of
        Inl e \<Rightarrow> Inl e
      | Inr paths \<Rightarrow>
          (let suitable = suitable paths Q H in
           if suitable \<noteq> [] then
             (let pows = foldl (\<lambda>d t. dict_set d t (calculate_power_gui Q H (PyStr t))) [] suitable
              in Inr \<lparr>title = ''Turbine(s): '' @ join '', '' suitable, annotation = Powers pows\<rparr>)
           else
             (let pow0 = calculate_power_gui Q H PyNone
              in Inr \<lparr>title = ''Turbine(s): None'', annotation = ApproxPower pow0\<rparr>)))"

text \<open>
  What an entry point has done for the user by the time it ends: whether the figure has
  been created (\<^verbatim>\<open>plt.subplots\<close>), whether the point has been marked on it with its
  title and annotation, whether the error box has been put up, and whether the chart has
  been shown (\<^verbatim>\<open>plt.show\<close>). An entry point returns the exception that leaves it, if
  any, and this state.
\<close>

record ui =
  figure :: bool
  marked :: "outcome option"
  error_box :: bool
  shown :: bool

definition ui0 :: ui where
  "ui0 = \<lparr>figure = False, marked = None, error_box = False, shown = False\<rparr>"

text \<open>\<^verbatim>\<open>create_plot\<close> creates the figure first and shows the chart last.\<close>

definition create_plot_ui :: "real \<Rightarrow> real \<Rightarrow> ui \<Rightarrow> py_error option \<times> ui" where
  "create_plot_ui Q H u =
     (let u = u\<lparr>figure := True\<rparr> in
      case create_plot_gui Q H of
        Inl e \<Rightarrow> (Some e, u)
      | Inr out \<Rightarrow> (None, u\<lparr>marked := Some out, shown := True\<rparr>))"

text \<open>
  The form's handler. \<open>pyfloat\<close> stands for Python's \<^verbatim>\<open>float\<close> on the text of an entry
  field, \<open>None\<close> for its \<^verbatim>\<open>ValueError\<close>; reading an entry field cannot fail. Only the
  two conversions are inside the \<^verbatim>\<open>try\<close>; an exception of \<^verbatim>\<open>create_plot\<close> would leave
  the handler.
  \<^verbatim>\<open>
  def on_plot():
      try:
          Q = float(q_entry.get())
          H = float(h_entry.get())
      except ValueError:
          messagebox.showerror(...)
          return
      create_plot(Q, H)
  \<close>
\<close>

definition on_plot_gui ::
  "(string \<Rightarrow> real option) \<Rightarrow> string \<Rightarrow> string \<Rightarrow> ui \<Rightarrow> py_error option \<times> ui" where
  "on_plot_gui pyfloat q_entry h_entry u =
     (case pyfloat q_entry of
        None \<Rightarrow> (None, u\<lparr>error_box := True\<rparr>)
      | Some Q \<Rightarrow>
          (case pyfloat h_entry of
             None \<Rightarrow> (None, u\<lparr>error_box := True\<rparr>)
           | Some H \<Rightarrow> create_plot_ui Q H u))"

text \<open>
  The script's \<^verbatim>\<open>main()\<close> draws the envelopes first, then reads \<open>Q\<close> and \<open>H\<close> from the
  console with \<^verbatim>\<open>float(input(...))\<close> outside any \<^verbatim>\<open>try\<close>, then decides. \<open>main_script\<close> is
  \<^verbatim>\<open>main\<close> on the two lines the console delivers:
  \<^verbatim>\<open>
  suitable = [name for name, path in paths.items() if path.contains_point((Q, H))]
  calculated_powers = {}
  if suitable:
      for turbine_type in suitable:
          power = calculate_power(Q, H, turbine_type)
          calculated_powers[turbine_type] = power
      title = f"Turbine(s): {', '.join(suitable)}"
      ... annotate with calculated_powers ...
  else:
      power_at_point = calculate_power(Q, H)
      title = f"Turbine(s): None"
      ... annotate with power_at_point ...
  ax.set_title(title, pad=15)
  \<close>
\<close>

definition decide_script :: "(string, path) dict \<Rightarrow> real \<Rightarrow> real \<Rightarrow> outcome" where
  "decide_script paths Q H =
     (let suitable = suitable paths Q H;
          calculated_powers = [] in
      if suitable \<noteq> [] then
        (let calculated_powers =
               foldl (\<lambda>d turbine_type.
                        let power = calculate_power_script Q H (PyStr turbine_type)
                        in dict_set d turbine_type power) calculated_powers suitable;
             title = ''Turbine(s): '' @ join '', '' suitable
         in \<lparr>title = title, annotation = Powers calculated_powers\<rparr>)
      else
        (let power_at_point = calculate_power_script Q H PyNone;
             title = ''Turbine(s): None''
         in \<lparr>title = title, annotation = ApproxPower power_at_point\<rparr>))"

definition main_script :: "(string \<Rightarrow> real option) \<Rightarrow> string \<Rightarrow> string \<Rightarrow> py_error + outcome" where
  "main_script pyfloat q_line h_line =
     (let envelopes = define_envelopes_script in
      case plot_envelopes envelopes of
        Inl e \<Rightarrow> Inl e
      | Inr paths \<Rightarrow>
          (case pyfloat q_line of
             None \<Rightarrow> Inl ValueError
           | Some Q \<Rightarrow>
               (case pyfloat h_line of
                  None \<Rightarrow> Inl ValueError
                | Some H \<Rightarrow> Inr (decide_script paths Q H))))"

text \<open>
  The same \<^verbatim>\<open>main()\<close> with the console and the figure made explicit. Standard input is
  the list of lines still to be read; \<^verbatim>\<open>input()\<close> takes the next one and raises
  \<^verbatim>\<open>EOFError\<close> when there is none. The figure is created and the envelopes are drawn
  before the first prompt; nothing in \<^verbatim>\<open>main\<close> catches an exception. The result is the
  exception that leaves \<^verbatim>\<open>main\<close>, if any, the state of the chart, and the lines left
  unread.
  \<^verbatim>\<open>
  envelopes = define_envelopes()
  fig, ax = plt.subplots(figsize=(12, 8))
  ...
  paths = plot_envelopes(ax, envelopes)
  plot_power_curves(ax)
  Q = float(input(...))
  H = float(input(...))
  ...
  plt.show()
  \<close>
\<close>

definition input_line :: "string list \<Rightarrow> py_error + string \<times> string list" where
  "input_line stdin = (case stdin of [] \<Rightarrow> Inl EOFError | l # rest \<Rightarrow> Inr (l, rest))"

definition main_console ::
  "(string \<Rightarrow> real option) \<Rightarrow> string list \<Rightarrow> (py_error option \<times> ui) \<times> string list" where
  "main_console pyfloat stdin =
     (let envelopes = define_envelopes_script;
          u = ui0\<lparr>figure := True\<rparr> in
      case plot_envelopes envelopes of
        Inl e \<Rightarrow> ((Some e, u), stdin)
      | Inr paths \<Rightarrow>
          (case input_line stdin of
             Inl e \<Rightarrow> ((Some e, u), stdin)
           | Inr (q_line, stdin1) \<Rightarrow>
               (case pyfloat q_line of
                  None \<Rightarrow> ((Some ValueError, u), stdin1)
                | Some Q \<Rightarrow>
                    (case input_line stdin1 of
                       Inl e \<Rightarrow> ((Some e, u), stdin1)
                     | Inr (h_line, stdin2) \<Rightarrow>
                         (case pyfloat h_line of
                            None \<Rightarrow> ((Some ValueError, u), stdin2)
                          | Some H \<Rightarrow>
                              ((None, u\<lparr>marked := Some (decide_script paths Q H), shown := True\<rparr>),
                               stdin2))))))"

text \<open>
  The envelope classifier of both programs: the envelopes are turned into closed paths and
  the names are filtered by containment of the query point (the first three steps of
  \<^verbatim>\<open>create_plot\<close> and of \<^verbatim>\<open>main\<close> that bear on the decision).
\<close>

definition classifier :: "(string, point list) dict \<Rightarrow> real \<Rightarrow> real \<Rightarrow> py_error + string list" where
  "classifier envelopes Q H =
     (case plot_envelopes envelopes of
        Inl e \<Rightarrow> Inl e
      | Inr paths \<Rightarrow> Inr (suitable paths Q H))"

section \<open>The geometry the claims speak of\<close>

text \<open>
  The names of the three envelopes and the vertex list of each, read off the table.
\<close>

definition turbine_names :: "string list" where
  "turbine_names = map fst define_envelopes_gui"

definition envelope :: "string \<Rightarrow> point list" where
  "envelope n = dict_get define_envelopes_gui n []"

text \<open>The polygon closed as \<^verbatim>\<open>plot_envelopes\<close> closes it: the first vertex repeated at
  the end.\<close>

definition closed_path :: "point list \<Rightarrow> path" where
  "closed_path pts = pts @ take 1 pts"

text \<open>
  Which side of the directed line from \<open>a\<close> to \<open>b\<close> the point \<open>p\<close> lies on: negative to
  the right, positive to the left, zero on the line.
\<close>

definition edge_side :: "point \<Rightarrow> point \<Rightarrow> point \<Rightarrow> real" where
  "edge_side a b p = (fst b - fst a) * (snd p - snd a) - (snd b - snd a) * (fst p - fst a)"

definition polygon_edges :: "point list \<Rightarrow> (point \<times> point) list" where
  "polygon_edges pts = zip pts (rotate1 pts)"

text \<open>
  A vertex list is convex and clockwise when every vertex lies on or to the right of every
  edge and the boundary turns right at every vertex. The region it bounds is then the
  intersection of the closed right half-planes of its edges: its interior is what lies
  strictly to the right of every edge, its exterior what lies strictly to the left of
  some edge, and its boundary the rest.
\<close>

definition convex_clockwise :: "point list \<Rightarrow> bool" where
  "convex_clockwise pts =
     (list_all (\<lambda>(a, b). list_all (\<lambda>v. edge_side a b v \<le> 0) pts) (polygon_edges pts) \<and>
      list_all (\<lambda>((a, b), (b', c)). edge_side a b c < 0)
        (zip (polygon_edges pts) (rotate1 (polygon_edges pts))))"

definition strictly_inside :: "point list \<Rightarrow> point \<Rightarrow> bool" where
  "strictly_inside pts p = list_all (\<lambda>(a, b). edge_side a b p < 0) (polygon_edges pts)"

definition strictly_outside :: "point list \<Rightarrow> point \<Rightarrow> bool" where
  "strictly_outside pts p = list_ex (\<lambda>(a, b). edge_side a b p > 0) (polygon_edges pts)"

section \<open>Properties of the power estimator\<close>

lemma calculate_power_gui_eff:
  "calculate_power_gui Q H t =
     (998 * 9.81 * Q * H *
        (if t = PyStr ''Pelton'' then 0.915 else if t = PyStr ''Francis'' then 0.945
         else if t = PyStr ''Kaplan'' then 0.94 else 0.88)) / 1000"
  by (simp add: calculate_power_gui_def dict_get_def)

lemma calculate_power_script_eff:
  "calculate_power_script Q H t =
     (998 * 9.81 * Q * H *
        (if t = PyStr ''Pelton'' then 0.915 else if t = PyStr ''Francis'' then 0.945
         else if t = PyStr ''Kaplan'' then 0.94 else 0.88)) / 1000"
  by (simp add: calculate_power_script_def efficiencies_script_def dict_get_def)

text \<open>
  C1. For every \<open>Q\<close> and \<open>H\<close> and each of the labels Pelton, Francis and Kaplan, both
  versions of \<open>calculate_power\<close> return \<open>(998 * 9.81 * Q * H * eta) / 1000\<close> with
  \<open>eta\<close> = 0.915, 0.945 and 0.94 respectively. The functions are pure: the result
  depends on the three arguments only.
\<close>

theorem calculate_power_labelled:
  "calculate_power_gui Q H (PyStr ''Pelton'') = (998 * 9.81 * Q * H * 0.915) / 1000 \<and>
   calculate_power_gui Q H (PyStr ''Francis'') = (998 * 9.81 * Q * H * 0.945) / 1000 \<and>
   calculate_power_gui Q H (PyStr ''Kaplan'') = (998 * 9.81 * Q * H * 0.94) / 1000 \<and>
   calculate_power_script Q H (PyStr ''Pelton'') = (998 * 9.81 * Q * H * 0.915) / 1000 \<and>
   calculate_power_script Q H (PyStr ''Francis'') = (998 * 9.81 * Q * H * 0.945) / 1000 \<and>
   calculate_power_script Q H (PyStr ''Kaplan'') = (998 * 9.81 * Q * H * 0.94) / 1000"
  unfolding calculate_power_gui_eff calculate_power_script_eff by simp

text \<open>
  C2. When the turbine argument is \<open>None\<close>, or a label other than Pelton, Francis and
  Kaplan, both versions use the default efficiency 0.88.
\<close>

theorem calculate_power_default:
  assumes "t = PyNone \<or> (\<exists>s. t = PyStr s \<and> s \<notin> {''Pelton'', ''Francis'', ''Kaplan''})"
  shows "calculate_power_gui Q H t = (998 * 9.81 * Q * H * 0.88) / 1000 \<and>
         calculate_power_script Q H t = (998 * 9.81 * Q * H * 0.88) / 1000"
proof -
  from assms have "t \<noteq> PyStr ''Pelton''" "t \<noteq> PyStr ''Francis''" "t \<noteq> PyStr ''Kaplan''"
    by auto
  then show ?thesis
    unfolding calculate_power_gui_eff calculate_power_script_eff by simp
qed

theorem calculate_power_default_witness:
  "calculate_power_gui 2 10 PyNone = (998 * 9.81 * 2 * 10 * 0.88) / 1000 \<and>
   calculate_power_script 2 10 PyNone = (998 * 9.81 * 2 * 10 * 0.88) / 1000 \<and>
   calculate_power_gui 2 10 (PyStr ''pelton'') = (998 * 9.81 * 2 * 10 * 0.88) / 1000 \<and>
   calculate_power_script 2 10 (PyStr ''pelton'') = (998 * 9.81 * 2 * 10 * 0.88) / 1000"
  using calculate_power_default [of PyNone 2 10]
    calculate_power_default [of "PyStr ''pelton''" 2 10]
  by simp

section \<open>The envelopes as polygons\<close>

lemma define_envelopes_same: "define_envelopes_script = define_envelopes_gui"
  by (simp add: define_envelopes_script_def define_envelopes_gui_def)

lemma turbine_names_simp: "turbine_names = [''Pelton'', ''Francis'', ''Kaplan'']"
  by (simp add: turbine_names_def define_envelopes_gui_def)

lemma envelope_Pelton:
  "envelope ''Pelton'' =
     [(0.02, 120), (0.02, 1000), (3.5, 1000), (9.8, 350), (4.8, 60), (0.038, 60)]"
  by (simp add: envelope_def dict_get_def define_envelopes_gui_def)

lemma envelope_Francis:
  "envelope ''Francis'' =
     [(0.2, 12), (0.2, 36), (1.2, 350), (9.8, 350), (40, 85), (25, 20), (1.6, 7), (0.32, 7)]"
  by (simp add: envelope_def dict_get_def define_envelopes_gui_def)

lemma envelope_Kaplan:
  "envelope ''Kaplan'' =
     [(1.2, 2), (0.5, 4.5), (0.5, 7), (1.8, 30), (5.9, 48), (35.0, 48), (100.0, 18),
      (100.0, 2.9), (75.0, 2)]"
  by (simp add: envelope_def dict_get_def define_envelopes_gui_def)

lemma envelopes_convex: "list_all (\<lambda>n. convex_clockwise (envelope n)) turbine_names"
  by (simp add: turbine_names_simp envelope_Pelton envelope_Francis envelope_Kaplan
      convex_clockwise_def polygon_edges_def edge_side_def)

lemma plot_envelopes_paths:
  "plot_envelopes define_envelopes_gui = Inr (map (\<lambda>n. (n, closed_path (envelope n))) turbine_names)"
  by (simp add: plot_envelopes_def turbine_names_simp envelope_Pelton envelope_Francis
      envelope_Kaplan closed_path_def)
    (simp add: define_envelopes_gui_def dict_item_def colors_def)

lemma classifier_filter:
  "classifier define_envelopes_gui Q H =
     Inr (filter (\<lambda>n. contains_point (closed_path (envelope n)) (Q, H)) turbine_names)"
  by (simp add: classifier_def plot_envelopes_paths suitable_def filter_map comp_def)

lemmas geometry_defs = strictly_inside_def strictly_outside_def polygon_edges_def
  edge_side_def closed_path_def contains_point_def crosses_def Let_def

lemma Pelton_inside:
  "strictly_inside (envelope ''Pelton'') (Q, H) \<Longrightarrow> contains_point (closed_path (envelope ''Pelton'')) (Q, H)"
  unfolding envelope_Pelton by (simp add: geometry_defs) argo

lemma Pelton_outside:
  "strictly_outside (envelope ''Pelton'') (Q, H) \<Longrightarrow> \<not> contains_point (closed_path (envelope ''Pelton'')) (Q, H)"
  unfolding envelope_Pelton by (simp add: geometry_defs) argo

lemma Francis_inside:
  "strictly_inside (envelope ''Francis'') (Q, H) \<Longrightarrow> contains_point (closed_path (envelope ''Francis'')) (Q, H)"
  unfolding envelope_Francis by (simp add: geometry_defs) argo

lemma Francis_outside:
  "strictly_outside (envelope ''Francis'') (Q, H) \<Longrightarrow> \<not> contains_point (closed_path (envelope ''Francis'')) (Q, H)"
  unfolding envelope_Francis by (simp add: geometry_defs) argo

lemma Kaplan_inside:
  "strictly_inside (envelope ''Kaplan'') (Q, H) \<Longrightarrow> contains_point (closed_path (envelope ''Kaplan'')) (Q, H)"
  unfolding envelope_Kaplan by (simp add: geometry_defs) argo

lemma Kaplan_outside:
  "strictly_outside (envelope ''Kaplan'') (Q, H) \<Longrightarrow> \<not> contains_point (closed_path (envelope ''Kaplan'')) (Q, H)"
  unfolding envelope_Kaplan by (simp add: geometry_defs) argo

lemma inside_contains:
  "n \<in> set turbine_names \<Longrightarrow> strictly_inside (envelope n) (Q, H) \<Longrightarrow>
   contains_point (closed_path (envelope n)) (Q, H)"
  using Pelton_inside Francis_inside Kaplan_inside by (auto simp: turbine_names_simp)

lemma outside_not_contains:
  "n \<in> set turbine_names \<Longrightarrow> strictly_outside (envelope n) (Q, H) \<Longrightarrow>
   \<not> contains_point (closed_path (envelope n)) (Q, H)"
  using Pelton_outside Francis_outside Kaplan_outside by (auto simp: turbine_names_simp)

lemma inside_not_outside:
  "strictly_inside pts p \<Longrightarrow> \<not> strictly_outside pts p"
  by (auto simp: strictly_inside_def strictly_outside_def list_all_iff list_ex_iff)

lemma distinct_singleton: "distinct xs \<Longrightarrow> set xs = {x} \<Longrightarrow> xs = [x]"
proof -
  assume d: "distinct xs" and s: "set xs = {x}"
  from d have "length xs = card (set xs)" by (simp add: distinct_card)
  with s have "length xs = 1" by simp
  then obtain y where "xs = [y]" by (cases xs) auto
  with s show ?thesis by simp
qed

section \<open>The classifier\<close>

text \<open>
  C3, as amended. For every query point the classifier of either program returns the
  names of the table, in the order of the table, filtered by the containment test on the
  closed polygon: exactly the names whose polygon passes, each once; the result is a
  function of the point. The test agrees
  with the geometry off the boundary: a name is returned when the point is strictly
  inside its envelope and is not returned when the point is strictly outside. Hence a
  point strictly inside one envelope and strictly outside the other two is classified
  with exactly that one name.
\<close>

theorem classifier_containment:
  "\<exists>names. classifier define_envelopes_gui Q H = Inr names \<and>
           classifier define_envelopes_script Q H = Inr names \<and>
           names = filter (\<lambda>n. contains_point (closed_path (envelope n)) (Q, H)) turbine_names \<and>
           turbine_names = map fst define_envelopes_gui \<and>
           distinct names \<and>
           set names = {n \<in> set turbine_names. contains_point (closed_path (envelope n)) (Q, H)} \<and>
           (\<forall>n \<in> set turbine_names.
              (strictly_inside (envelope n) (Q, H) \<longrightarrow> n \<in> set names) \<and>
              (strictly_outside (envelope n) (Q, H) \<longrightarrow> n \<notin> set names)) \<and>
           (\<forall>n \<in> set turbine_names.
              strictly_inside (envelope n) (Q, H) \<and>
              (\<forall>m \<in> set turbine_names. m \<noteq> n \<longrightarrow> strictly_outside (envelope m) (Q, H))
              \<longrightarrow> names = [n])"
proof -
  define names where "names = filter (\<lambda>n. contains_point (closed_path (envelope n)) (Q, H)) turbine_names"
  have ret: "classifier define_envelopes_gui Q H = Inr names"
    by (simp add: classifier_filter names_def)
  have dist: "distinct names"
    by (simp add: names_def turbine_names_simp)
  have mem: "set names = {n \<in> set turbine_names. contains_point (closed_path (envelope n)) (Q, H)}"
    by (simp add: names_def)
  have off: "\<forall>n \<in> set turbine_names.
              (strictly_inside (envelope n) (Q, H) \<longrightarrow> n \<in> set names) \<and>
              (strictly_outside (envelope n) (Q, H) \<longrightarrow> n \<notin> set names)"
    using inside_contains outside_not_contains by (simp add: mem)
  have one: "names = [n]"
    if n: "n \<in> set turbine_names" and ins: "strictly_inside (envelope n) (Q, H)"
      and out: "\<forall>m \<in> set turbine_names. m \<noteq> n \<longrightarrow> strictly_outside (envelope m) (Q, H)" for n
  proof -
    have "set names = {n}"
      using n ins out inside_contains outside_not_contains unfolding mem by blast
    with dist show ?thesis by (rule distinct_singleton)
  qed
  have ord: "names = filter (\<lambda>n. contains_point (closed_path (envelope n)) (Q, H)) turbine_names"
    by (fact names_def)
  have tab: "turbine_names = map fst define_envelopes_gui"
    by (fact turbine_names_def)
  have ret': "classifier define_envelopes_script Q H = Inr names"
    using ret by (simp add: define_envelopes_same)
  from ret ret' ord tab dist mem off one show ?thesis
    by blast
qed

theorem classifier_containment_witness:
  "classifier define_envelopes_gui (1 / 10) 200 = Inr [''Pelton'']"
proof -
  have n: "''Pelton'' \<in> set turbine_names"
    by (simp add: turbine_names_simp)
  have ins: "strictly_inside (envelope ''Pelton'') (1 / 10, 200)"
    by (simp add: envelope_Pelton geometry_defs)
  have out: "\<forall>m \<in> set turbine_names. m \<noteq> ''Pelton'' \<longrightarrow> strictly_outside (envelope m) (1 / 10, 200)"
    by (simp add: turbine_names_simp envelope_Francis envelope_Kaplan geometry_defs)
  from classifier_containment [of "1 / 10" 200] obtain names
    where ret: "classifier define_envelopes_gui (1 / 10) 200 = Inr names"
      and one: "\<forall>n \<in> set turbine_names.
              strictly_inside (envelope n) (1 / 10, 200) \<and>
              (\<forall>m \<in> set turbine_names. m \<noteq> n \<longrightarrow> strictly_outside (envelope m) (1 / 10, 200))
              \<longrightarrow> names = [n]"
    by blast
  from one n ins out have "names = [''Pelton'']" by blast
  with ret show ?thesis by simp
qed

text \<open>
  The point \<open>(5, 350)\<close> is strictly inside the Pelton envelope and strictly inside no
  other, yet the classifier returns two names: the point lies on the upper edge of the
  Francis envelope, which the crossing test counts as contained.
\<close>

theorem classifier_boundary_counterexample:
  "strictly_inside (envelope ''Pelton'') (5, 350) \<and>
   \<not> strictly_inside (envelope ''Francis'') (5, 350) \<and>
   \<not> strictly_inside (envelope ''Kaplan'') (5, 350) \<and>
   classifier define_envelopes_gui 5 350 = Inr [''Pelton'', ''Francis''] \<and>
   classifier define_envelopes_script 5 350 = Inr [''Pelton'', ''Francis'']"
  by (simp add: define_envelopes_same classifier_filter turbine_names_simp
      envelope_Pelton envelope_Francis envelope_Kaplan geometry_defs)


lemma Pelton_not_Kaplan:
  "strictly_inside (envelope ''Pelton'') (Q, H) \<Longrightarrow> strictly_outside (envelope ''Kaplan'') (Q, H)"
  unfolding envelope_Pelton envelope_Kaplan by (simp add: geometry_defs)

lemma Kaplan_not_Pelton:
  "strictly_inside (envelope ''Kaplan'') (Q, H) \<Longrightarrow> strictly_outside (envelope ''Pelton'') (Q, H)"
  unfolding envelope_Pelton envelope_Kaplan by (simp add: geometry_defs)

lemma names_Pelton_Francis:
  assumes "strictly_inside (envelope ''Pelton'') (Q, H)"
    and "strictly_inside (envelope ''Francis'') (Q, H)"
  shows "filter (\<lambda>n. contains_point (closed_path (envelope n)) (Q, H)) turbine_names =
         [''Pelton'', ''Francis'']"
proof -
  have "contains_point (closed_path (envelope ''Pelton'')) (Q, H)"
    using assms(1) by (rule Pelton_inside)
  moreover have "contains_point (closed_path (envelope ''Francis'')) (Q, H)"
    using assms(2) by (rule Francis_inside)
  moreover have "\<not> contains_point (closed_path (envelope ''Kaplan'')) (Q, H)"
    using assms(1) by (intro Kaplan_outside Pelton_not_Kaplan)
  ultimately show ?thesis by (simp add: turbine_names_simp)
qed

lemma names_Francis_Kaplan:
  assumes "strictly_inside (envelope ''Francis'') (Q, H)"
    and "strictly_inside (envelope ''Kaplan'') (Q, H)"
  shows "filter (\<lambda>n. contains_point (closed_path (envelope n)) (Q, H)) turbine_names =
         [''Francis'', ''Kaplan'']"
proof -
  have "contains_point (closed_path (envelope ''Francis'')) (Q, H)"
    using assms(1) by (rule Francis_inside)
  moreover have "contains_point (closed_path (envelope ''Kaplan'')) (Q, H)"
    using assms(2) by (rule Kaplan_inside)
  moreover have "\<not> contains_point (closed_path (envelope ''Pelton'')) (Q, H)"
    using assms(2) by (intro Pelton_outside Kaplan_not_Pelton)
  ultimately show ?thesis by (simp add: turbine_names_simp)
qed

lemma Pelton_Kaplan_disjoint:
  assumes "strictly_inside (envelope ''Pelton'') (Q, H)"
    and "strictly_inside (envelope ''Kaplan'') (Q, H)"
  shows False
proof -
  from assms(2) have "strictly_outside (envelope ''Pelton'') (Q, H)"
    by (rule Kaplan_not_Pelton)
  with assms(1) show False by (simp add: inside_not_outside)
qed


lemma two_inside_names:
  assumes a: "a \<in> set turbine_names" and b: "b \<in> set turbine_names" and ab: "a \<noteq> b"
    and ia: "strictly_inside (envelope a) (Q, H)" and ib: "strictly_inside (envelope b) (Q, H)"
  shows "filter (\<lambda>n. contains_point (closed_path (envelope n)) (Q, H)) turbine_names =
         filter (\<lambda>n. n = a \<or> n = b) turbine_names"
proof -
  from a b ab consider
      (PF) "a = ''Pelton''" "b = ''Francis''" | (FP) "a = ''Francis''" "b = ''Pelton''"
    | (FK) "a = ''Francis''" "b = ''Kaplan''" | (KF) "a = ''Kaplan''" "b = ''Francis''"
    | (PK) "a = ''Pelton''" "b = ''Kaplan''" | (KP) "a = ''Kaplan''" "b = ''Pelton''"
    unfolding turbine_names_simp by fastforce
  then show ?thesis
  proof cases
    case PF
    with ia ib show ?thesis
      by (simp add: names_Pelton_Francis) (simp add: turbine_names_simp)
  next
    case FP
    with ia ib show ?thesis
      by (simp add: names_Pelton_Francis) (simp add: turbine_names_simp)
  next
    case FK
    with ia ib show ?thesis
      by (simp add: names_Francis_Kaplan) (simp add: turbine_names_simp)
  next
    case KF
    with ia ib show ?thesis
      by (simp add: names_Francis_Kaplan) (simp add: turbine_names_simp)
  next
    case PK
    with ia ib show ?thesis using Pelton_Kaplan_disjoint by blast
  next
    case KP
    with ia ib show ?thesis using Pelton_Kaplan_disjoint by blast
  qed
qed

text \<open>
  C4. A point strictly inside two of the envelopes is classified, by either program, with
  exactly those two names, in the order of the table: the third envelope is then strictly
  outside. Such points exist for Pelton and Francis, and for Francis and Kaplan.
\<close>

theorem overlap_returns_both:
  "(a \<in> set turbine_names \<and> b \<in> set turbine_names \<and> a \<noteq> b \<and>
    strictly_inside (envelope a) (Q, H) \<and> strictly_inside (envelope b) (Q, H) \<longrightarrow>
      (\<exists>names. classifier define_envelopes_gui Q H = Inr names \<and>
               classifier define_envelopes_script Q H = Inr names \<and>
               names = filter (\<lambda>n. n = a \<or> n = b) turbine_names \<and>
               set names = {a, b} \<and>
               a \<in> set names \<and> b \<in> set names)) \<and>
   (\<exists>Q' H'. strictly_inside (envelope ''Pelton'') (Q', H') \<and>
            strictly_inside (envelope ''Francis'') (Q', H')) \<and>
   (\<exists>Q' H'. strictly_inside (envelope ''Francis'') (Q', H') \<and>
            strictly_inside (envelope ''Kaplan'') (Q', H'))"
proof (intro conjI impI)
  assume h: "a \<in> set turbine_names \<and> b \<in> set turbine_names \<and> a \<noteq> b \<and>
    strictly_inside (envelope a) (Q, H) \<and> strictly_inside (envelope b) (Q, H)"
  define names where "names = filter (\<lambda>n. n = a \<or> n = b) turbine_names"
  from h have "filter (\<lambda>n. contains_point (closed_path (envelope n)) (Q, H)) turbine_names = names"
    unfolding names_def by (intro two_inside_names) simp_all
  then have ret: "classifier define_envelopes_gui Q H = Inr names"
    by (simp add: classifier_filter)
  then have ret': "classifier define_envelopes_script Q H = Inr names"
    by (simp add: define_envelopes_same)
  from h have mem: "set names = {a, b}"
    unfolding names_def by auto
  then have "a \<in> set names" "b \<in> set names" by simp_all
  with ret ret' mem names_def
  show "\<exists>names. classifier define_envelopes_gui Q H = Inr names \<and>
               classifier define_envelopes_script Q H = Inr names \<and>
               names = filter (\<lambda>n. n = a \<or> n = b) turbine_names \<and>
               set names = {a, b} \<and>
               a \<in> set names \<and> b \<in> set names"
    by blast
next
  have "strictly_inside (envelope ''Pelton'') (2, 200) \<and>
        strictly_inside (envelope ''Francis'') (2, 200)"
    by (simp add: envelope_Pelton envelope_Francis geometry_defs)
  then show "\<exists>Q' H'. strictly_inside (envelope ''Pelton'') (Q', H') \<and>
            strictly_inside (envelope ''Francis'') (Q', H')"
    by blast
next
  have "strictly_inside (envelope ''Francis'') (10, 20) \<and>
        strictly_inside (envelope ''Kaplan'') (10, 20)"
    by (simp add: envelope_Francis envelope_Kaplan geometry_defs)
  then show "\<exists>Q' H'. strictly_inside (envelope ''Francis'') (Q', H') \<and>
            strictly_inside (envelope ''Kaplan'') (Q', H')"
    by blast
qed

theorem overlap_returns_both_witness:
  "classifier define_envelopes_gui 2 200 = Inr [''Pelton'', ''Francis''] \<and>
   classifier define_envelopes_script 2 200 = Inr [''Pelton'', ''Francis'']"
proof -
  have "''Francis'' \<in> set turbine_names \<and> ''Pelton'' \<in> set turbine_names \<and>
        ''Francis'' \<noteq> ''Pelton'' \<and>
        strictly_inside (envelope ''Francis'') (2, 200) \<and>
        strictly_inside (envelope ''Pelton'') (2, 200)"
    by (simp add: turbine_names_simp envelope_Pelton envelope_Francis geometry_defs)
  with overlap_returns_both [of "''Francis''" "''Pelton''" 2 200]
  obtain names where "classifier define_envelopes_gui 2 200 = Inr names"
    and "classifier define_envelopes_script 2 200 = Inr names"
    and "names = filter (\<lambda>n. n = ''Francis'' \<or> n = ''Pelton'') turbine_names"
    by blast
  then show ?thesis by (simp add: turbine_names_simp)
qed

lemma create_plot_gui_classifier:
  "create_plot_gui Q H =
     (case classifier define_envelopes_gui Q H of
        Inl e \<Rightarrow> Inl e
      | Inr names \<Rightarrow>
          if names \<noteq> [] then
            Inr \<lparr>title = ''Turbine(s): '' @ join '', '' names,
                 annotation = Powers (foldl (\<lambda>d t. dict_set d t (calculate_power_gui Q H (PyStr t))) [] names)\<rparr>
          else
            Inr \<lparr>title = ''Turbine(s): None'',
                 annotation = ApproxPower (calculate_power_gui Q H PyNone)\<rparr>)"
  by (simp add: create_plot_gui_def classifier_def Let_def split: sum.splits)

lemma plot_envelopes_script_paths:
  "plot_envelopes define_envelopes_script =
     Inr (map (\<lambda>n. (n, closed_path (envelope n))) turbine_names)"
  by (simp add: define_envelopes_same plot_envelopes_paths)

lemma suitable_paths:
  "suitable (map (\<lambda>n. (n, closed_path (envelope n))) turbine_names) Q H =
     filter (\<lambda>n. contains_point (closed_path (envelope n)) (Q, H)) turbine_names"
  by (simp add: suitable_def filter_map comp_def)

lemma main_script_parsed:
  "main_script pyfloat q h =
     (case pyfloat q of
        None \<Rightarrow> Inl ValueError
      | Some Q \<Rightarrow>
          (case pyfloat h of
             None \<Rightarrow> Inl ValueError
           | Some H \<Rightarrow>
               Inr (decide_script (map (\<lambda>n. (n, closed_path (envelope n))) turbine_names) Q H)))"
  by (simp add: main_script_def plot_envelopes_script_paths)

lemma calculate_power_same: "calculate_power_script Q H t = calculate_power_gui Q H t"
  by (simp add: calculate_power_gui_eff calculate_power_script_eff)

text \<open>
  C5. For a point strictly outside all three envelopes the classifier returns the empty
  list, and both programs then display the power that \<open>calculate_power\<close> gives without a
  turbine label, which uses the default efficiency 0.88.
\<close>

theorem outside_all_default_power:
  assumes "\<forall>n \<in> set turbine_names. strictly_outside (envelope n) (Q, H)"
  shows "classifier define_envelopes_gui Q H = Inr [] \<and>
         classifier define_envelopes_script Q H = Inr [] \<and>
         create_plot_gui Q H =
           Inr \<lparr>title = ''Turbine(s): None'',
                annotation = ApproxPower (calculate_power_gui Q H PyNone)\<rparr> \<and>
         calculate_power_gui Q H PyNone = (998 * 9.81 * Q * H * 0.88) / 1000 \<and>
         (pyfloat q = Some Q \<and> pyfloat h = Some H \<longrightarrow>
            main_script pyfloat q h =
              Inr \<lparr>title = ''Turbine(s): None'',
                   annotation = ApproxPower (calculate_power_script Q H PyNone)\<rparr>) \<and>
         calculate_power_script Q H PyNone = (998 * 9.81 * Q * H * 0.88) / 1000"
proof -
  from assms have "\<forall>n \<in> set turbine_names. \<not> contains_point (closed_path (envelope n)) (Q, H)"
    by (simp add: outside_not_contains)
  then have none: "classifier define_envelopes_gui Q H = Inr []"
    by (simp add: classifier_filter)
  then have none': "classifier define_envelopes_script Q H = Inr []"
    by (simp add: define_envelopes_same)
  have gui: "create_plot_gui Q H =
           Inr \<lparr>title = ''Turbine(s): None'',
                annotation = ApproxPower (calculate_power_gui Q H PyNone)\<rparr>"
    by (simp add: create_plot_gui_classifier none)
  have script: "main_script pyfloat q h =
              Inr \<lparr>title = ''Turbine(s): None'',
                   annotation = ApproxPower (calculate_power_script Q H PyNone)\<rparr>"
    if "pyfloat q = Some Q \<and> pyfloat h = Some H"
    using that none'
    by (simp add: main_script_parsed decide_script_def suitable_paths classifier_filter
        define_envelopes_same)
  have pg: "calculate_power_gui Q H PyNone = (998 * 9.81 * Q * H * 0.88) / 1000"
    by (simp add: calculate_power_gui_eff)
  have ps: "calculate_power_script Q H PyNone = (998 * 9.81 * Q * H * 0.88) / 1000"
    by (simp add: calculate_power_script_eff)
  from none none' gui script pg ps show ?thesis by blast
qed

theorem outside_all_default_power_witness:
  "classifier define_envelopes_gui 200 5 = Inr [] \<and>
   create_plot_gui 200 5 =
     Inr \<lparr>title = ''Turbine(s): None'', annotation = ApproxPower (calculate_power_gui 200 5 PyNone)\<rparr> \<and>
   main_script (\<lambda>s. if s = ''200'' then Some 200 else if s = ''5'' then Some 5 else None)
       ''200'' ''5'' =
     Inr \<lparr>title = ''Turbine(s): None'', annotation = ApproxPower (calculate_power_script 200 5 PyNone)\<rparr>"
proof -
  have out: "\<forall>n \<in> set turbine_names. strictly_outside (envelope n) (200, 5)"
    by (simp add: turbine_names_simp envelope_Pelton envelope_Francis envelope_Kaplan
        geometry_defs)
  from outside_all_default_power [OF out,
      of "\<lambda>s. if s = ''200'' then Some 200 else if s = ''5'' then Some 5 else None"
        "''200''" "''5''"]
  show ?thesis by simp
qed

section \<open>Monotonicity of the power\<close>

lemma power_scale_mono:
  fixes c :: real
  assumes "0 < c" "0 < y" "x1 < x2"
  shows "(998 * 9.81 * x1 * y * c) / 1000 < (998 * 9.81 * x2 * y * c) / 1000"
    and "(998 * 9.81 * y * x1 * c) / 1000 < (998 * 9.81 * y * x2 * c) / 1000"
proof -
  from assms have less: "x1 * (y * c) < x2 * (y * c)"
    by (simp add: mult_strict_right_mono)
  from less show "(998 * 9.81 * x1 * y * c) / 1000 < (998 * 9.81 * x2 * y * c) / 1000"
    by (simp add: algebra_simps)
  from less show "(998 * 9.81 * y * x1 * c) / 1000 < (998 * 9.81 * y * x2 * c) / 1000"
    by (simp add: algebra_simps)
qed

lemma efficiency_positive:
  "(0::real) < (if t = PyStr ''Pelton'' then 0.915 else if t = PyStr ''Francis'' then 0.945
         else if t = PyStr ''Kaplan'' then 0.94 else 0.88)"
  by simp

text \<open>
  C6, as amended. For a fixed turbine argument (a label or none) the power of either
  program is strictly increasing in \<open>Q\<close> at every positive head \<open>H\<close>, and strictly
  increasing in \<open>H\<close> at every positive flow \<open>Q\<close>.
\<close>

theorem power_strictly_increasing:
  "(0 < H \<and> Q1 < Q2 \<longrightarrow>
      calculate_power_gui Q1 H t < calculate_power_gui Q2 H t \<and>
      calculate_power_script Q1 H t < calculate_power_script Q2 H t) \<and>
   (0 < Q \<and> H1 < H2 \<longrightarrow>
      calculate_power_gui Q H1 t < calculate_power_gui Q H2 t \<and>
      calculate_power_script Q H1 t < calculate_power_script Q H2 t)"
  unfolding calculate_power_same calculate_power_gui_eff
  using power_scale_mono [OF efficiency_positive] by blast

theorem power_strictly_increasing_witness:
  "calculate_power_gui 1 10 (PyStr ''Kaplan'') < calculate_power_gui 2 10 (PyStr ''Kaplan'') \<and>
   calculate_power_script 1 10 (PyStr ''Kaplan'') < calculate_power_script 2 10 (PyStr ''Kaplan'') \<and>
   calculate_power_gui 3 10 PyNone < calculate_power_gui 3 20 PyNone \<and>
   calculate_power_script 3 10 PyNone < calculate_power_script 3 20 PyNone"
  using power_strictly_increasing [of 10 1 2 "PyStr ''Kaplan''" 1 1 2]
    power_strictly_increasing [of 1 1 2 PyNone 3 10 20]
  by simp

text \<open>
  Without the sign condition the power is not increasing: at \<open>H = 0\<close> it is zero for
  every flow, at \<open>Q = 0\<close> it is zero for every head, and at a negative head the larger
  flow gives the smaller power. Neither program rejects such inputs.
\<close>

theorem power_zero_head_counterexample:
  "(1::real) < 2 \<and>
   \<not> calculate_power_gui 1 0 PyNone < calculate_power_gui 2 0 PyNone \<and>
   \<not> calculate_power_script 1 0 PyNone < calculate_power_script 2 0 PyNone \<and>
   \<not> calculate_power_gui 0 1 (PyStr ''Pelton'') < calculate_power_gui 0 2 (PyStr ''Pelton'') \<and>
   \<not> calculate_power_gui 1 (- 5) PyNone < calculate_power_gui 2 (- 5) PyNone"
  by (simp add: calculate_power_gui_eff calculate_power_script_eff)

section \<open>The two worked examples\<close>



text \<open>
  C8. At \<open>Q = 50\<close>, \<open>H = 1\<close> the classifier returns the empty list, and the power without
  a label is \<open>998 * 9.81 * 50 * 1 * 0.88 / 1000 = 430.77672\<close> kW, which is 430.7 kW cut
  to one decimal (within 0.1 kW of it).
\<close>

theorem example_outside:
  "classifier define_envelopes_gui 50 1 = Inr [] \<and>
   classifier define_envelopes_script 50 1 = Inr [] \<and>
   calculate_power_gui 50 1 PyNone = 998 * 9.81 * 50 * 1 * 0.88 / 1000 \<and>
   calculate_power_script 50 1 PyNone = 998 * 9.81 * 50 * 1 * 0.88 / 1000 \<and>
   calculate_power_gui 50 1 PyNone = 430.77672 \<and>
   \<bar>calculate_power_gui 50 1 PyNone - 430.7\<bar> < 0.1 \<and>
   create_plot_gui 50 1 =
     Inr \<lparr>title = ''Turbine(s): None'', annotation = ApproxPower (calculate_power_gui 50 1 PyNone)\<rparr>"
  by (simp add: define_envelopes_same classifier_filter turbine_names_simp
      envelope_Pelton envelope_Francis envelope_Kaplan geometry_defs
      calculate_power_gui_eff calculate_power_script_eff create_plot_gui_classifier)

section \<open>The entry points\<close>

lemma create_plot_gui_decide:
  "create_plot_gui Q H =
     Inr (decide_script (map (\<lambda>n. (n, closed_path (envelope n))) turbine_names) Q H)"
  by (simp add: create_plot_gui_def plot_envelopes_paths decide_script_def Let_def
      calculate_power_same)

lemma on_plot_gui_cases:
  "on_plot_gui pyfloat q h u =
     (case pyfloat q of
        None \<Rightarrow> (None, u\<lparr>error_box := True\<rparr>)
      | Some Q \<Rightarrow>
          (case pyfloat h of
             None \<Rightarrow> (None, u\<lparr>error_box := True\<rparr>)
           | Some H \<Rightarrow>
               (None, u\<lparr>figure := True,
                         marked := Some (decide_script
                           (map (\<lambda>n. (n, closed_path (envelope n))) turbine_names) Q H),
                         shown := True\<rparr>)))"
  by (simp add: on_plot_gui_def create_plot_ui_def create_plot_gui_decide split: option.splits)

lemma main_console_cases:
  "main_console pyfloat stdin =
     (case stdin of
        [] \<Rightarrow> ((Some EOFError, ui0\<lparr>figure := True\<rparr>), [])
      | q # rest \<Rightarrow>
          (case pyfloat q of
             None \<Rightarrow> ((Some ValueError, ui0\<lparr>figure := True\<rparr>), rest)
           | Some Q \<Rightarrow>
               (case rest of
                  [] \<Rightarrow> ((Some EOFError, ui0\<lparr>figure := True\<rparr>), [])
                | h # rest' \<Rightarrow>
                    (case pyfloat h of
                       None \<Rightarrow> ((Some ValueError, ui0\<lparr>figure := True\<rparr>), rest')
                     | Some H \<Rightarrow>
                         ((None, ui0\<lparr>figure := True,
                                     marked := Some (decide_script
                                       (map (\<lambda>n. (n, closed_path (envelope n))) turbine_names) Q H),
                                     shown := True\<rparr>), rest')))))"
  by (simp add: main_console_def plot_envelopes_script_paths input_line_def
      split: list.splits option.splits)











text \<open>
  In the script a line that is not a number leaves \<^verbatim>\<open>main\<close> as a \<^verbatim>\<open>ValueError\<close> that
  nothing catches, where the form catches the same error, puts up its error box and
  returns.
\<close>

lemma script_value_error_escapes:
  "fst (fst (main_console (\<lambda>s. if s = ''2.5'' then Some (5 / 2) else if s = ''40'' then Some 40 else None)
     [''abc'', ''40''])) = Some ValueError \<and>
   on_plot_gui (\<lambda>s. if s = ''2.5'' then Some (5 / 2) else if s = ''40'' then Some 40 else None)
     ''abc'' ''40'' ui0 = (None, ui0\<lparr>error_box := True\<rparr>)"
  by (simp add: main_console_cases on_plot_gui_cases)




text \<open>
  C10. The two programs hold the same table of envelopes, their \<open>calculate_power\<close>
  agree on every \<open>(Q, H, label)\<close>, and so they classify every point alike and display the
  same title and powers for it.
\<close>

theorem entry_points_agree:
  "define_envelopes_gui = define_envelopes_script \<and>
   (\<forall>Q H t. calculate_power_gui Q H t = calculate_power_script Q H t) \<and>
   (\<forall>Q H. classifier define_envelopes_gui Q H = classifier define_envelopes_script Q H) \<and>
   (\<forall>Q H. create_plot_gui Q H =
      (case plot_envelopes define_envelopes_script of
         Inl e \<Rightarrow> Inl e
       | Inr paths \<Rightarrow> Inr (decide_script paths Q H)))"
  by (simp add: define_envelopes_same calculate_power_same create_plot_gui_decide
      plot_envelopes_paths)

end
